theory Spec2Isabelle
  imports Main
begin

section \<open>The lap-based alarm stopwatch: data model\<close>

text \<open>
  The program keeps one global object \<open>state\<close> and mutates it from click handlers and
  from a 100 ms interval callback. The model passes that object explicitly. Timestamps
  are the integers returned by \<open>Date.now()\<close>; every call of \<open>Date.now()\<close> in a function
  body is a separate parameter of the model (in source order), so that nothing is
  assumed about two readings taken in the same handler. The DOM writes and the
  \<open>localStorage\<close> calls never write \<open>state\<close> and are left out; the calls on the
  audio element are kept as a log.
\<close>

text \<open>A lap object, with the fields of the object literal in \<open>createLap\<close>.\<close>

record lap =
  createdAt :: int
  recordedTime :: int
  alarmDuration :: int
  triggered :: bool
  enabled :: bool
  isRecorded :: bool

text \<open>Calls on the audio element: \<open>playAlarmSound\<close> and \<open>stopAlarmSound\<close>.\<close>

datatype audio_call = Play | Stop

text \<open>
  The global \<open>state\<close>. \<open>startTime\<close> and \<open>currentLapStartTime\<close> are \<open>null\<close> or a number.
  \<open>intervalActive\<close> stands for the timer behind \<open>state.intervalId\<close>: \<open>setInterval\<close>
  makes it live, \<open>clearInterval\<close> stops it. \<open>audioCalls\<close> is the log of calls on
  \<open>elements.alarmSound\<close>. The table \<open>defaultAlarmDurations\<close> is never written and
  is a constant below.
\<close>

record state =
  isRunning :: bool
  elapsedTime :: int
  startTime :: "int option"
  pausedTime :: int
  currentLapStartTime :: "int option"
  laps :: "lap list"
  intervalActive :: bool
  audioCalls :: "audio_call list"

definition init_state :: state where
  "init_state = \<lparr> isRunning = False, elapsedTime = 0, startTime = None, pausedTime = 0,
     currentLapStartTime = None, laps = [], intervalActive = False, audioCalls = [] \<rparr>"

definition defaultAlarmDurations :: "int list" where
  "defaultAlarmDurations = [1 * 60 * 1000, 1 * 60 * 1000, 1 * 60 * 1000, 5 * 60 * 1000, 5 * 60 * 1000]"

text \<open>
  \<open>state.defaultAlarmDurations[i] || 5 * 60 * 1000\<close>: an index past the table reads
  \<open>undefined\<close>, and \<open>undefined\<close> and \<open>0\<close> are both falsy.
\<close>

definition defaultDuration :: "nat \<Rightarrow> int" where
  "defaultDuration i =
     (if i < length defaultAlarmDurations \<and> defaultAlarmDurations ! i \<noteq> 0
      then defaultAlarmDurations ! i else 5 * 60 * 1000)"

text \<open>JavaScript arithmetic on a nullable timestamp: \<open>null\<close> converts to \<open>0\<close>.\<close>

definition toNumber :: "int option \<Rightarrow> int" where
  "toNumber x = (case x of None \<Rightarrow> 0 | Some n \<Rightarrow> n)"

section \<open>Audio\<close>

definition playAlarmSound :: "state \<Rightarrow> state" where
  "playAlarmSound s = s\<lparr> audioCalls := audioCalls s @ [Play] \<rparr>"

definition stopAlarmSound :: "state \<Rightarrow> state" where
  "stopAlarmSound s = s\<lparr> audioCalls := audioCalls s @ [Stop] \<rparr>"

section \<open>Core stopwatch logic\<close>

text \<open>The object literal pushed by \<open>startStopwatch\<close> and by \<open>createLap\<close>.\<close>

definition newLap :: "int \<Rightarrow> int \<Rightarrow> lap" where
  "newLap now dur = \<lparr> createdAt = now, recordedTime = 0, alarmDuration = dur,
     triggered = False, enabled = True, isRecorded = False \<rparr>"

text \<open>
  \<open>startStopwatch\<close>; \<open>t1\<close> is the reading for \<open>startTime\<close>, \<open>t2\<close> the one for the first
  lap's \<open>createdAt\<close>.
\<close>

definition startStopwatch :: "int \<Rightarrow> int \<Rightarrow> state \<Rightarrow> state" where
  "startStopwatch t1 t2 s =
     (if isRunning s then s
      else
        let s1 = s\<lparr> isRunning := True, startTime := Some (t1 - pausedTime s) \<rparr>;
            s2 = (if currentLapStartTime s1 = None
                  then s1\<lparr> currentLapStartTime := startTime s1 \<rparr> else s1);
            s3 = (if length (laps s2) = 0
                  then s2\<lparr> laps := laps s2 @ [newLap t2 (defaultDuration 0)] \<rparr> else s2)
        in s3\<lparr> intervalActive := True \<rparr>)"

definition pauseStopwatch :: "state \<Rightarrow> state" where
  "pauseStopwatch s =
     (if \<not> isRunning s then s
      else s\<lparr> isRunning := False, intervalActive := False \<rparr>)"

definition resetStopwatch :: "state \<Rightarrow> state" where
  "resetStopwatch s =
     s\<lparr> isRunning := False, elapsedTime := 0, pausedTime := 0, startTime := None,
        currentLapStartTime := None, laps := [], intervalActive := False \<rparr>"

definition updateStopwatchDisplay :: "int \<Rightarrow> state \<Rightarrow> state" where
  "updateStopwatchDisplay now s =
     (if \<not> isRunning s then s
      else
        let s1 = s\<lparr> pausedTime := now - toNumber (startTime s) \<rparr>
        in s1\<lparr> elapsedTime := pausedTime s1 \<rparr>)"

section \<open>Lap management\<close>

text \<open>
  \<open>createLap\<close>; \<open>t1\<close> is the reading for the closing lap's time (read only while
  running), \<open>t2\<close> the one for the new lap's \<open>createdAt\<close>, \<open>t3\<close> the one for
  \<open>currentLapStartTime\<close> (read only while running).
\<close>

definition createLap :: "int \<Rightarrow> int \<Rightarrow> int \<Rightarrow> state \<Rightarrow> state" where
  "createLap t1 t2 t3 s =
     (if \<not> isRunning s \<and> length (laps s) = 0 then s
      else
        let recorded =
              (case currentLapStartTime s of
                 None \<Rightarrow> 0
               | Some c \<Rightarrow>
                   if isRunning s then t1 - c
                   else pausedTime s - (c - toNumber (startTime s)));
            s1 = stopAlarmSound s;
            s2 = (if length (laps s1) > 0
                  then
                    let currentLapIndex = length (laps s1) - 1;
                        currentLap = laps s1 ! currentLapIndex;
                        currentLap' =
                          (if \<not> isRecorded currentLap
                           then currentLap\<lparr> recordedTime := max 0 recorded, isRecorded := True,
                                  enabled := False, triggered := False \<rparr>
                           else currentLap\<lparr> enabled := False, triggered := False \<rparr>)
                    in s1\<lparr> laps := (laps s1)[currentLapIndex := currentLap'] \<rparr>
                  else s1);
            lapIndex = length (laps s2);
            s3 = s2\<lparr> laps := laps s2 @ [newLap t2 (defaultDuration lapIndex)] \<rparr>
        in s3\<lparr> currentLapStartTime :=
                 Some (if isRunning s3 then t3 else toNumber (startTime s3) + pausedTime s3) \<rparr>)"

text \<open>
  The local \<open>mainElapsedTime\<close> of \<open>getLapElapsedTime\<close>: the main stopwatch's current
  elapsed time.
\<close>

definition mainElapsedTime :: "int \<Rightarrow> state \<Rightarrow> int" where
  "mainElapsedTime now s =
     (if isRunning s then now - toNumber (startTime s) else pausedTime s)"

text \<open>\<open>getLapElapsedTime\<close>; the index is an array index, a natural number.\<close>

definition getLapElapsedTime :: "int \<Rightarrow> state \<Rightarrow> nat \<Rightarrow> int" where
  "getLapElapsedTime now s lapIndex =
     (if lapIndex \<ge> length (laps s) then 0
      else
        let l = laps s ! lapIndex
        in max 0 (mainElapsedTime now s - (createdAt l - toNumber (startTime s))))"

definition checkLapAlarms :: "int \<Rightarrow> state \<Rightarrow> state" where
  "checkLapAlarms now s =
     (if length (laps s) = 0 then s
      else
        let currentLapIndex = length (laps s) - 1;
            currentLap = laps s ! currentLapIndex
        in if \<not> enabled currentLap \<or> triggered currentLap then s
           else if getLapElapsedTime now s currentLapIndex \<ge> alarmDuration currentLap
           then playAlarmSound
                  (s\<lparr> laps := (laps s)[currentLapIndex := currentLap\<lparr> triggered := True \<rparr>] \<rparr>)
           else s)"

section \<open>Lap alarm management\<close>

definition updateLapAlarmDuration :: "nat \<Rightarrow> int \<Rightarrow> state \<Rightarrow> state" where
  "updateLapAlarmDuration lapIndex durationMs s =
     (if lapIndex < length (laps s)
      then s\<lparr> laps := (laps s)[lapIndex :=
                 (laps s ! lapIndex)\<lparr> alarmDuration := durationMs, triggered := False \<rparr>] \<rparr>
      else s)"

definition toggleLapAlarm :: "nat \<Rightarrow> state \<Rightarrow> state" where
  "toggleLapAlarm lapIndex s =
     (if lapIndex < length (laps s)
      then s\<lparr> laps := (laps s)[lapIndex :=
                 (laps s ! lapIndex)\<lparr> enabled := \<not> enabled (laps s ! lapIndex),
                                        triggered := False \<rparr>] \<rparr>
      else s)"

section \<open>The interval callback and the events of a session\<close>

text \<open>
  The callback registered by \<open>setInterval\<close>: \<open>updateStopwatchDisplay\<close>,
  \<open>updateCurrentLapDisplay\<close> (a DOM write only) and \<open>checkLapAlarms\<close>, in that order;
  \<open>t1\<close> and \<open>t2\<close> are the readings of the first and the last.
\<close>

definition tick :: "int \<Rightarrow> int \<Rightarrow> state \<Rightarrow> state" where
  "tick t1 t2 s = checkLapAlarms t2 (updateStopwatchDisplay t1 s)"

text \<open>
  What can happen to the page: the four buttons and keys, the two per-lap alarm
  operations, and the timer firing. The timer fires only while it is live.
\<close>

datatype action =
    Start int int
  | Pause
  | Lap int int int
  | Reset
  | Tick int int
  | UpdateThreshold nat int
  | ToggleArmed nat

fun step :: "action \<Rightarrow> state \<Rightarrow> state" where
  "step (Start t1 t2) s = startStopwatch t1 t2 s"
| "step Pause s = pauseStopwatch s"
| "step (Lap t1 t2 t3) s = createLap t1 t2 t3 s"
| "step Reset s = resetStopwatch s"
| "step (Tick t1 t2) s = (if intervalActive s then tick t1 t2 s else s)"
| "step (UpdateThreshold i d) s = updateLapAlarmDuration i d s"
| "step (ToggleArmed i) s = toggleLapAlarm i s"

fun run :: "action list \<Rightarrow> state \<Rightarrow> state" where
  "run [] s = s"
| "run (a # as) s = run as (step a s)"

section \<open>Observations and sample sessions\<close>

text \<open>
  An evaluation of the alarm fires when \<open>checkLapAlarms\<close> calls \<open>playAlarmSound\<close>.
\<close>

definition alarmFires :: "int \<Rightarrow> state \<Rightarrow> bool" where
  "alarmFires now s = (audioCalls (checkLapAlarms now s) = audioCalls s @ [Play])"

text \<open>The ledger invariant: every lap but the last is recorded, the last is not.\<close>

definition closedExceptLast :: "lap list \<Rightarrow> bool" where
  "closedExceptLast ls = (\<forall>i<length ls. isRecorded (ls ! i) \<longleftrightarrow> Suc i < length ls)"

text \<open>
  Playback for a lap. \<open>playCount\<close> counts the \<open>Play\<close> calls made so far. An action
  plays for lap \<open>i\<close> when lap \<open>i\<close> is the last lap of the state the action starts in
  and the action makes a \<open>Play\<close> call; \<open>playedFor\<close> says that some action of a
  sequence does so.
\<close>

definition playCount :: "state \<Rightarrow> nat" where
  "playCount s = length (filter (\<lambda>c. c = Play) (audioCalls s))"

definition playsFor :: "nat \<Rightarrow> action \<Rightarrow> state \<Rightarrow> bool" where
  "playsFor i a s = (Suc i = length (laps s) \<and> playCount s < playCount (step a s))"

fun playedFor :: "nat \<Rightarrow> action list \<Rightarrow> state \<Rightarrow> bool" where
  "playedFor i [] s = False"
| "playedFor i (a # as) s = (playsFor i a s \<or> playedFor i as (step a s))"

text \<open>
  The actions that end the current alarm cycle of lap \<open>i\<close>: toggling its alarm,
  editing its duration, and a reset, which deletes the lap (a later lap at the same
  index is another lap).
\<close>

fun endsCycle :: "nat \<Rightarrow> action \<Rightarrow> bool" where
  "endsCycle i (ToggleArmed j) = (j = i)"
| "endsCycle i (UpdateThreshold j d) = (j = i)"
| "endsCycle i Reset = True"
| "endsCycle i _ = False"

text \<open>Lap \<open>i\<close> exists and is either triggered or no longer the last lap.\<close>

definition firedOrClosed :: "nat \<Rightarrow> state \<Rightarrow> bool" where
  "firedOrClosed i s =
     (i < length (laps s) \<and> (triggered (laps s ! i) \<or> Suc i < length (laps s)))"

text \<open>
  Sessions used as concrete inputs. All clock readings of one handler are equal in
  them. \<open>started\<close>: Start pressed at 0. \<open>tickedAt1000\<close>: then the timer fires at 1000.
  \<open>pausedAt1000\<close>: then Pause is pressed. \<open>lapWhilePaused\<close>: then Lap is pressed at
  2000, during the pause. \<open>lapWhileRunning\<close>: Start at 0, Lap at 1000.
  \<open>firedAt60000\<close>: Start at 0, timer at 60000, where the first lap's alarm fires.
\<close>

definition started :: state where
  "started = run [Start 0 0] init_state"

definition tickedAt1000 :: state where
  "tickedAt1000 = run [Start 0 0, Tick 1000 1000] init_state"

definition pausedAt1000 :: state where
  "pausedAt1000 = run [Start 0 0, Tick 1000 1000, Pause] init_state"

definition lapWhilePaused :: state where
  "lapWhilePaused = run [Start 0 0, Tick 1000 1000, Pause, Lap 2000 2000 2000] init_state"

definition lapWhileRunning :: state where
  "lapWhileRunning = run [Start 0 0, Lap 1000 1000 1000] init_state"

definition firedAt60000 :: state where
  "firedAt60000 = run [Start 0 0, Tick 60000 60000] init_state"

section \<open>Evaluating the sample sessions\<close>

lemmas stopwatch_defs =
  init_state_def defaultAlarmDurations_def defaultDuration_def toNumber_def
  playAlarmSound_def stopAlarmSound_def newLap_def startStopwatch_def pauseStopwatch_def
  resetStopwatch_def updateStopwatchDisplay_def createLap_def mainElapsedTime_def
  getLapElapsedTime_def checkLapAlarms_def updateLapAlarmDuration_def toggleLapAlarm_def
  tick_def Let_def

lemma started_eq:
  "started = \<lparr> isRunning = True, elapsedTime = 0, startTime = Some 0, pausedTime = 0,
     currentLapStartTime = Some 0,
     laps = [\<lparr> createdAt = 0, recordedTime = 0, alarmDuration = 60000,
               triggered = False, enabled = True, isRecorded = False \<rparr>],
     intervalActive = True, audioCalls = [] \<rparr>"
  by (simp add: started_def stopwatch_defs)

lemma tickedAt1000_eq:
  "tickedAt1000 = \<lparr> isRunning = True, elapsedTime = 1000, startTime = Some 0,
     pausedTime = 1000, currentLapStartTime = Some 0,
     laps = [\<lparr> createdAt = 0, recordedTime = 0, alarmDuration = 60000,
               triggered = False, enabled = True, isRecorded = False \<rparr>],
     intervalActive = True, audioCalls = [] \<rparr>"
  by (simp add: tickedAt1000_def stopwatch_defs)

lemma pausedAt1000_eq:
  "pausedAt1000 = \<lparr> isRunning = False, elapsedTime = 1000, startTime = Some 0,
     pausedTime = 1000, currentLapStartTime = Some 0,
     laps = [\<lparr> createdAt = 0, recordedTime = 0, alarmDuration = 60000,
               triggered = False, enabled = True, isRecorded = False \<rparr>],
     intervalActive = False, audioCalls = [] \<rparr>"
  by (simp add: pausedAt1000_def stopwatch_defs)

lemma lapWhilePaused_eq:
  "lapWhilePaused = \<lparr> isRunning = False, elapsedTime = 1000, startTime = Some 0,
     pausedTime = 1000, currentLapStartTime = Some 1000,
     laps = [\<lparr> createdAt = 0, recordedTime = 1000, alarmDuration = 60000,
               triggered = False, enabled = False, isRecorded = True \<rparr>,
             \<lparr> createdAt = 2000, recordedTime = 0, alarmDuration = 60000,
               triggered = False, enabled = True, isRecorded = False \<rparr>],
     intervalActive = False, audioCalls = [Stop] \<rparr>"
  by (simp add: lapWhilePaused_def stopwatch_defs)

lemma lapWhileRunning_eq:
  "lapWhileRunning = \<lparr> isRunning = True, elapsedTime = 0, startTime = Some 0,
     pausedTime = 0, currentLapStartTime = Some 1000,
     laps = [\<lparr> createdAt = 0, recordedTime = 1000, alarmDuration = 60000,
               triggered = False, enabled = False, isRecorded = True \<rparr>,
             \<lparr> createdAt = 1000, recordedTime = 0, alarmDuration = 60000,
               triggered = False, enabled = True, isRecorded = False \<rparr>],
     intervalActive = True, audioCalls = [Stop] \<rparr>"
  by (simp add: lapWhileRunning_def stopwatch_defs)

lemma firedAt60000_eq:
  "firedAt60000 = \<lparr> isRunning = True, elapsedTime = 60000, startTime = Some 0,
     pausedTime = 60000, currentLapStartTime = Some 0,
     laps = [\<lparr> createdAt = 0, recordedTime = 0, alarmDuration = 60000,
               triggered = True, enabled = True, isRecorded = False \<rparr>],
     intervalActive = True, audioCalls = [Play] \<rparr>"
  by (simp add: firedAt60000_def stopwatch_defs)

section \<open>What the alarm check and the display refresh leave alone\<close>

lemma checkLapAlarms_clock [simp]:
  "isRunning (checkLapAlarms now s) = isRunning s"
  "startTime (checkLapAlarms now s) = startTime s"
  "pausedTime (checkLapAlarms now s) = pausedTime s"
  "currentLapStartTime (checkLapAlarms now s) = currentLapStartTime s"
  "intervalActive (checkLapAlarms now s) = intervalActive s"
  "length (laps (checkLapAlarms now s)) = length (laps s)"
  by (simp_all add: checkLapAlarms_def playAlarmSound_def Let_def)

lemma laps_updateStopwatchDisplay [simp]:
  "laps (updateStopwatchDisplay now s) = laps s"
  by (simp add: updateStopwatchDisplay_def Let_def)

lemma checkLapAlarms_laps_Nil:
  "(laps (checkLapAlarms now s) = []) = (laps s = [])"
proof -
  have "(length (laps (checkLapAlarms now s)) = 0) = (length (laps s) = 0)" by simp
  then show ?thesis by (simp only: length_0_conv)
qed

text \<open>
  In every state reached from the initial one, a running stopwatch and a non-empty
  ledger both come with a \<open>startTime\<close> that is a number: the conversion of \<open>null\<close>
  is never needed for a lap that exists.
\<close>

lemma startTime_known_step:
  assumes "isRunning s \<or> laps s \<noteq> [] \<longrightarrow> startTime s \<noteq> None"
  shows "isRunning (step a s) \<or> laps (step a s) \<noteq> [] \<longrightarrow> startTime (step a s) \<noteq> None"
proof (cases a)
  case (Start t1 t2)
  with assms show ?thesis by (simp add: startStopwatch_def Let_def)
next
  case Pause
  with assms show ?thesis by (simp add: pauseStopwatch_def)
next
  case (Lap t1 t2 t3)
  with assms show ?thesis by (auto simp add: createLap_def Let_def stopAlarmSound_def)
next
  case Reset
  then show ?thesis by (simp add: resetStopwatch_def)
next
  case (Tick t1 t2)
  with assms show ?thesis
    by (simp add: tick_def updateStopwatchDisplay_def Let_def checkLapAlarms_laps_Nil)
next
  case (UpdateThreshold i d)
  with assms show ?thesis by (simp add: updateLapAlarmDuration_def)
next
  case (ToggleArmed i)
  with assms show ?thesis by (simp add: toggleLapAlarm_def)
qed

lemma startTime_known_run:
  assumes "isRunning s \<or> laps s \<noteq> [] \<longrightarrow> startTime s \<noteq> None"
  shows "isRunning (run as s) \<or> laps (run as s) \<noteq> [] \<longrightarrow> startTime (run as s) \<noteq> None"
  using assms
proof (induction as arbitrary: s)
  case Nil
  then show ?case by simp
next
  case (Cons a as)
  from Cons.prems have "isRunning (step a s) \<or> laps (step a s) \<noteq> [] \<longrightarrow> startTime (step a s) \<noteq> None"
    by (rule startTime_known_step)
  then show ?case using Cons.IH by simp
qed

lemma startTime_known_reachable:
  "laps (run as init_state) \<noteq> [] \<Longrightarrow> \<exists>e. startTime (run as init_state) = Some e"
  using startTime_known_run [of init_state as] by (auto simp add: init_state_def)

section \<open>Out-of-range lap indices\<close>

text \<open>
  C10. For every index at or past the end of the ledger the per-lap operations are
  total and harmless: \<open>getLapElapsedTime\<close> returns 0, and \<open>updateLapAlarmDuration\<close> and
  \<open>toggleLapAlarm\<close> return the state as it was.
\<close>

theorem out_of_range_index_harmless:
  assumes "length (laps s) \<le> i"
  shows "getLapElapsedTime now s i = 0
       \<and> updateLapAlarmDuration i d s = s
       \<and> toggleLapAlarm i s = s"
  using assms by (simp add: getLapElapsedTime_def updateLapAlarmDuration_def toggleLapAlarm_def)

theorem out_of_range_index_harmless_witness:
  "length (laps started) \<le> 1
   \<and> getLapElapsedTime 5000 started 1 = 0
   \<and> updateLapAlarmDuration 1 42 started = started
   \<and> toggleLapAlarm 1 started = started"
proof -
  have h: "length (laps started) \<le> 1" by (simp add: started_eq)
  from out_of_range_index_harmless [OF h, of 5000 42] h show ?thesis by blast
qed

section \<open>A lap request before the first start\<close>

text \<open>
  C9. \<open>createLap\<close> on a stopwatch that is not running and has an empty ledger (as it
  is before the first start) is ignored: the returned state is the state it was given,
  so no record is created, and neither the clock fields, the ledger nor the audio
  element are touched.
\<close>

theorem createLap_before_start_ignored:
  assumes "\<not> isRunning s" and "laps s = []"
  shows "createLap t1 t2 t3 s = s"
  using assms by (simp add: createLap_def)

theorem createLap_before_start_ignored_witness:
  "\<not> isRunning init_state \<and> laps init_state = []
   \<and> step (Lap 5 5 5) init_state = init_state"
proof -
  have a: "\<not> isRunning init_state" by (simp add: init_state_def)
  have b: "laps init_state = []" by (simp add: init_state_def)
  have "createLap 5 5 5 init_state = init_state"
    by (rule createLap_before_start_ignored [OF a b])
  with a b show ?thesis by simp
qed

section \<open>The lap-elapsed formula\<close>

text \<open>
  C1. For every lap index in range and every state of the clock, \<open>getLapElapsedTime\<close>
  is \<open>max 0 (referenceElapsed - (createdAt - startTime))\<close>, where the reference is
  \<open>now - startTime\<close> while running and the stored \<open>pausedTime\<close> while paused.
\<close>

theorem getLapElapsedTime_formula:
  assumes "i < length (laps s)"
  shows "getLapElapsedTime now s i =
           max 0 ((if isRunning s then now - toNumber (startTime s) else pausedTime s)
                  - (createdAt (laps s ! i) - toNumber (startTime s)))"
  using assms by (simp add: getLapElapsedTime_def mainElapsedTime_def)

theorem getLapElapsedTime_formula_witness:
  "1 < length (laps lapWhilePaused)
   \<and> getLapElapsedTime 5000 lapWhilePaused 1 = max 0 (1000 - (2000 - 0))
   \<and> 1 < length (laps lapWhileRunning)
   \<and> getLapElapsedTime 2500 lapWhileRunning 1 = max 0 ((2500 - 0) - (1000 - 0))"
proof -
  have h: "1 < length (laps lapWhilePaused)" by (simp add: lapWhilePaused_eq)
  have k: "1 < length (laps lapWhileRunning)" by (simp add: lapWhileRunning_eq)
  have "getLapElapsedTime 5000 lapWhilePaused 1 = max 0 (1000 - (2000 - 0))"
    using getLapElapsedTime_formula [OF h, of 5000]
    by (simp add: lapWhilePaused_eq toNumber_def)
  moreover have "getLapElapsedTime 2500 lapWhileRunning 1 = max 0 ((2500 - 0) - (1000 - 0))"
    using getLapElapsedTime_formula [OF k, of 2500]
    by (simp add: lapWhileRunning_eq toNumber_def)
  ultimately show ?thesis using h k by simp
qed

section \<open>The alarm check\<close>

text \<open>
  C2. An evaluation looks at the last lap only. The alarm fires if and only if the
  ledger is non-empty and its last lap is enabled, not yet triggered, and has an elapsed
  time at or above its alarm duration (equality fires). When it fires, the result is the
  old state with \<open>triggered\<close> set on that last record and one \<open>Play\<close> call added to the
  audio log; when it does not, the state is returned as it was.
\<close>

theorem checkLapAlarms_fires_iff:
  "(alarmFires now s \<longleftrightarrow>
      laps s \<noteq> [] \<and> enabled (last (laps s)) \<and> \<not> triggered (last (laps s))
      \<and> getLapElapsedTime now s (length (laps s) - 1) \<ge> alarmDuration (last (laps s)))
   \<and> (alarmFires now s \<longrightarrow>
        checkLapAlarms now s =
          s\<lparr> laps := (laps s)[length (laps s) - 1 := (last (laps s))\<lparr> triggered := True \<rparr>],
             audioCalls := audioCalls s @ [Play] \<rparr>)
   \<and> (\<not> alarmFires now s \<longrightarrow> checkLapAlarms now s = s)"
  by (auto simp add: alarmFires_def checkLapAlarms_def playAlarmSound_def Let_def last_conv_nth)

theorem checkLapAlarms_fires_iff_witness:
  "alarmFires 60000 started \<and> \<not> alarmFires 59999 started
   \<and> laps (checkLapAlarms 60000 started) = [(last (laps started))\<lparr> triggered := True \<rparr>]
   \<and> audioCalls (checkLapAlarms 60000 started) = [Play]
   \<and> checkLapAlarms 59999 started = started"
proof -
  have e60: "getLapElapsedTime 60000 started 0 = 60000"
    by (simp add: started_eq getLapElapsedTime_def mainElapsedTime_def toNumber_def)
  have e59: "getLapElapsedTime 59999 started 0 = 59999"
    by (simp add: started_eq getLapElapsedTime_def mainElapsedTime_def toNumber_def)
  have c60: "laps started \<noteq> [] \<and> enabled (last (laps started))
      \<and> \<not> triggered (last (laps started))
      \<and> getLapElapsedTime 60000 started (length (laps started) - 1)
          \<ge> alarmDuration (last (laps started))"
    using e60 by (simp add: started_eq)
  have c59: "\<not> (laps started \<noteq> [] \<and> enabled (last (laps started))
      \<and> \<not> triggered (last (laps started))
      \<and> getLapElapsedTime 59999 started (length (laps started) - 1)
          \<ge> alarmDuration (last (laps started)))"
    using e59 by (simp add: started_eq)
  note t60 = checkLapAlarms_fires_iff [of 60000 started]
  note t59 = checkLapAlarms_fires_iff [of 59999 started]
  have f60: "alarmFires 60000 started" using t60 c60 by blast
  have f59: "\<not> alarmFires 59999 started" using t59 c59 by blast
  have r60: "checkLapAlarms 60000 started =
          started\<lparr> laps := (laps started)[length (laps started) - 1 :=
                              (last (laps started))\<lparr> triggered := True \<rparr>],
             audioCalls := audioCalls started @ [Play] \<rparr>"
    using t60 f60 by blast
  have r59: "checkLapAlarms 59999 started = started" using t59 f59 by blast
  have "laps (checkLapAlarms 60000 started) = [(last (laps started))\<lparr> triggered := True \<rparr>]"
    unfolding r60 by (simp add: started_eq)
  moreover have "audioCalls (checkLapAlarms 60000 started) = [Play]"
    unfolding r60 by (simp add: started_eq)
  ultimately show ?thesis using f60 f59 r59 by blast
qed

section \<open>Pause and resume of the main clock\<close>

text \<open>
  C4. \<open>startStopwatch\<close> on a stopwatch that is not running sets \<open>startTime\<close> to the
  clock reading minus \<open>pausedTime\<close>. So the main elapsed time read at the instant of
  the resume is the elapsed time the paused stopwatch showed (whatever the wall clock
  says, so the length of the pause does not enter), and \<open>d\<close> milliseconds later it is
  that value plus \<open>d\<close>.
\<close>

theorem resume_continuous:
  assumes "\<not> isRunning s"
  shows "isRunning (startStopwatch t1 t2 s)
       \<and> startTime (startStopwatch t1 t2 s) = Some (t1 - pausedTime s)
       \<and> mainElapsedTime t1 (startStopwatch t1 t2 s) = mainElapsedTime t0 s
       \<and> mainElapsedTime (t1 + d) (startStopwatch t1 t2 s) = mainElapsedTime t0 s + d"
  using assms by (simp add: startStopwatch_def mainElapsedTime_def toNumber_def Let_def)

theorem resume_continuous_witness:
  "\<not> isRunning pausedAt1000
   \<and> mainElapsedTime 1000 pausedAt1000 = 1000
   \<and> startTime (startStopwatch 11000 11000 pausedAt1000) = Some 10000
   \<and> mainElapsedTime 11000 (startStopwatch 11000 11000 pausedAt1000) = 1000
   \<and> mainElapsedTime (11000 + 100) (startStopwatch 11000 11000 pausedAt1000) = 1100"
proof -
  have h: "\<not> isRunning pausedAt1000" by (simp add: pausedAt1000_eq)
  have e: "mainElapsedTime 1000 pausedAt1000 = 1000"
    by (simp add: pausedAt1000_eq mainElapsedTime_def)
  have p: "pausedTime pausedAt1000 = 1000" by (simp add: pausedAt1000_eq)
  from resume_continuous [OF h, of 11000 11000 1000 100] e p h show ?thesis by simp
qed

text \<open>
  C5, as stated, fails. \<open>pauseStopwatch\<close> reads no clock and does not write
  \<open>pausedTime\<close>. With the stopwatch started at 0 and the last timer callback at 1000,
  a Pause pressed at 1050 leaves \<open>pausedTime\<close> at 1000, not at 1050 - 0.
\<close>

theorem pause_at_1050_counterexample:
  "isRunning tickedAt1000 \<and> startTime tickedAt1000 = Some 0
   \<and> pausedTime (step Pause tickedAt1000) = 1000
   \<and> pausedTime (step Pause tickedAt1000) \<noteq> 1050 - toNumber (startTime tickedAt1000)"
  by (simp add: tickedAt1000_eq pauseStopwatch_def toNumber_def)

text \<open>
  C5, amended. \<open>pauseStopwatch\<close> on a running stopwatch clears \<open>isRunning\<close> and leaves
  \<open>pausedTime\<close> and \<open>startTime\<close> as they are; so after a timer callback whose display
  refresh read the clock at \<open>t1\<close>, a pause (at whatever later instant) freezes
  \<open>pausedTime\<close> at \<open>t1 - startTime\<close>, the value of that last refresh.
\<close>

theorem pause_keeps_last_refresh:
  assumes "isRunning s"
  shows "\<not> isRunning (pauseStopwatch s)
       \<and> pausedTime (pauseStopwatch s) = pausedTime s
       \<and> startTime (pauseStopwatch s) = startTime s
       \<and> pausedTime (pauseStopwatch (tick t1 t2 s)) = t1 - toNumber (startTime s)"
  using assms by (simp add: pauseStopwatch_def tick_def updateStopwatchDisplay_def Let_def)

theorem pause_keeps_last_refresh_witness:
  "isRunning started
   \<and> \<not> isRunning (pauseStopwatch started)
   \<and> pausedTime (pauseStopwatch started) = 0
   \<and> pausedTime (pauseStopwatch (tick 1000 1000 started)) = 1000"
proof -
  have h: "isRunning started" by (simp add: started_eq)
  have p: "pausedTime started = 0" "toNumber (startTime started) = 0"
    by (simp_all add: started_eq toNumber_def)
  from pause_keeps_last_refresh [OF h, of 1000 1000] h p show ?thesis by simp
qed

section \<open>A lap recorded during a pause\<close>

text \<open>
  C8, evaluated on a session: Start at 0, timer callback at 1000, Pause, Lap at 2000
  (during the pause), resume at 11000. The lap request closes lap 0 with its frozen
  time 1000 and appends an open lap 1, whose elapsed time is 0 for the rest of the
  pause. At the instant of the resume, \<open>getLapElapsedTime\<close> for lap 1 is 9000, the
  wall-clock time between the lap request and the resume, and not 0.
\<close>

theorem paused_lap_jumps_on_resume:
  "length (laps lapWhilePaused) = 2
   \<and> isRecorded (laps lapWhilePaused ! 0) \<and> recordedTime (laps lapWhilePaused ! 0) = 1000
   \<and> \<not> isRecorded (laps lapWhilePaused ! 1)
   \<and> getLapElapsedTime 2000 lapWhilePaused 1 = 0
   \<and> getLapElapsedTime 11000 lapWhilePaused 1 = 0
   \<and> getLapElapsedTime 11000 (step (Start 11000 11000) lapWhilePaused) 1 = 9000"
  by (simp add: lapWhilePaused_eq stopwatch_defs)

section \<open>An alarm fires once per cycle\<close>

lemma checkLapAlarms_triggered_last:
  assumes "laps s \<noteq> []" and "triggered (laps s ! (length (laps s) - 1))"
  shows "checkLapAlarms now s = s"
  using assms by (simp add: checkLapAlarms_def Let_def)

lemma checkLapAlarms_other_laps:
  assumes "Suc i < length (laps s)"
  shows "laps (checkLapAlarms now s) ! i = laps s ! i"
  using assms by (simp add: checkLapAlarms_def Let_def playAlarmSound_def)

lemma checkLapAlarms_keeps_triggered:
  assumes "i < length (laps s)" and "triggered (laps s ! i)"
  shows "triggered (laps (checkLapAlarms now s) ! i)"
proof -
  from assms(1) have "laps s \<noteq> []" by auto
  with assms show ?thesis
    by (simp add: checkLapAlarms_def Let_def playAlarmSound_def nth_list_update)
qed

lemma firedOrClosed_checkLapAlarms:
  "firedOrClosed i s \<Longrightarrow> firedOrClosed i (checkLapAlarms now s)"
  by (auto simp add: firedOrClosed_def checkLapAlarms_keeps_triggered)

lemma firedOrClosed_updateStopwatchDisplay:
  "firedOrClosed i s \<Longrightarrow> firedOrClosed i (updateStopwatchDisplay now s)"
  by (simp add: firedOrClosed_def)

lemma firedOrClosed_startStopwatch:
  "firedOrClosed i s \<Longrightarrow> firedOrClosed i (startStopwatch t1 t2 s)"
  by (auto simp add: firedOrClosed_def startStopwatch_def Let_def)

lemma firedOrClosed_createLap:
  assumes "firedOrClosed i s"
  shows "firedOrClosed i (createLap t1 t2 t3 s)"
proof -
  from assms have i: "i < length (laps s)" by (simp add: firedOrClosed_def)
  then have "length (laps (createLap t1 t2 t3 s)) = Suc (length (laps s))"
    by (auto simp add: createLap_def Let_def stopAlarmSound_def)
  with i show ?thesis by (simp add: firedOrClosed_def)
qed

lemma firedOrClosed_other_index:
  assumes "firedOrClosed i s" and "j \<noteq> i"
  shows "firedOrClosed i (s\<lparr> laps := (laps s)[j := c] \<rparr>)"
  using assms by (simp add: firedOrClosed_def)

lemma firedOrClosed_step:
  assumes "firedOrClosed i s" and "\<not> endsCycle i a"
  shows "firedOrClosed i (step a s)"
proof (cases a)
  case (Start t1 t2)
  with assms show ?thesis by (simp add: firedOrClosed_startStopwatch)
next
  case Pause
  with assms show ?thesis by (simp add: pauseStopwatch_def firedOrClosed_def)
next
  case (Lap t1 t2 t3)
  with assms show ?thesis by (simp add: firedOrClosed_createLap)
next
  case Reset
  with assms show ?thesis by simp
next
  case (Tick t1 t2)
  with assms show ?thesis
    by (simp add: tick_def firedOrClosed_checkLapAlarms firedOrClosed_updateStopwatchDisplay)
next
  case (UpdateThreshold j d)
  with assms show ?thesis
    by (simp add: updateLapAlarmDuration_def firedOrClosed_other_index)
next
  case (ToggleArmed j)
  with assms show ?thesis
    by (simp add: toggleLapAlarm_def firedOrClosed_other_index)
qed

lemma playCount_checkLapAlarms_fired:
  assumes "firedOrClosed i s" and "Suc i = length (laps s)"
  shows "checkLapAlarms now s = s"
proof -
  from assms have "laps s \<noteq> []" by auto
  moreover from assms(2) have "length (laps s) - 1 = i" by arith
  with assms have "triggered (laps s ! (length (laps s) - 1))"
    by (simp add: firedOrClosed_def)
  ultimately show ?thesis by (rule checkLapAlarms_triggered_last)
qed

lemma not_playsFor:
  assumes "firedOrClosed i s"
  shows "\<not> playsFor i a s"
proof (cases "Suc i = length (laps s)")
  case False
  then show ?thesis by (simp add: playsFor_def)
next
  case True
  have "playCount (step a s) = playCount s"
  proof (cases a)
    case (Start t1 t2)
    then show ?thesis by (simp add: playCount_def startStopwatch_def Let_def)
  next
    case Pause
    then show ?thesis by (simp add: playCount_def pauseStopwatch_def)
  next
    case (Lap t1 t2 t3)
    then show ?thesis by (simp add: playCount_def createLap_def Let_def stopAlarmSound_def)
  next
    case Reset
    then show ?thesis by (simp add: playCount_def resetStopwatch_def)
  next
    case (Tick t1 t2)
    from assms have "firedOrClosed i (updateStopwatchDisplay t1 s)"
      by (rule firedOrClosed_updateStopwatchDisplay)
    moreover from True have "Suc i = length (laps (updateStopwatchDisplay t1 s))" by simp
    ultimately have "checkLapAlarms t2 (updateStopwatchDisplay t1 s) = updateStopwatchDisplay t1 s"
      by (rule playCount_checkLapAlarms_fired)
    with Tick show ?thesis
      by (simp add: tick_def playCount_def updateStopwatchDisplay_def Let_def)
  next
    case (UpdateThreshold j d)
    then show ?thesis by (simp add: playCount_def updateLapAlarmDuration_def)
  next
    case (ToggleArmed j)
    then show ?thesis by (simp add: playCount_def toggleLapAlarm_def)
  qed
  then show ?thesis by (simp add: playsFor_def)
qed

lemma not_playedFor:
  assumes "firedOrClosed i s" and "\<forall>a \<in> set as. \<not> endsCycle i a"
  shows "\<not> playedFor i as s"
  using assms
proof (induction as arbitrary: s)
  case Nil
  then show ?case by simp
next
  case (Cons a as)
  from Cons.prems have "firedOrClosed i (step a s)" by (simp add: firedOrClosed_step)
  with Cons have "\<not> playedFor i as (step a s)" by simp
  with Cons.prems(1) show ?case by (simp add: not_playsFor)
qed

text \<open>
  C3. Once lap \<open>i\<close> is triggered, no action of any sequence of timer callbacks and
  user actions plays the alarm for lap \<open>i\<close>, up to the first action that toggles its
  alarm or edits its duration (or a reset, which deletes the lap). Toggling and editing
  both clear \<open>triggered\<close>.
\<close>

theorem fired_lap_silent_until_rearmed:
  assumes "i < length (laps s)" and "triggered (laps s ! i)"
  shows "\<not> playedFor i (takeWhile (\<lambda>a. \<not> endsCycle i a) as) s
       \<and> \<not> triggered (laps (toggleLapAlarm i s) ! i)
       \<and> \<not> triggered (laps (updateLapAlarmDuration i d s) ! i)"
proof -
  from assms have "firedOrClosed i s" by (simp add: firedOrClosed_def)
  moreover have "\<forall>a \<in> set (takeWhile (\<lambda>a. \<not> endsCycle i a) as). \<not> endsCycle i a"
    by (auto dest: set_takeWhileD)
  ultimately have "\<not> playedFor i (takeWhile (\<lambda>a. \<not> endsCycle i a) as) s"
    by (rule not_playedFor)
  with assms(1) show ?thesis
    by (simp add: toggleLapAlarm_def updateLapAlarmDuration_def)
qed

theorem fired_lap_silent_until_rearmed_witness:
  "0 < length (laps firedAt60000) \<and> triggered (laps firedAt60000 ! 0)
   \<and> \<not> playedFor 0 [Tick 60100 60100, Pause, Start 70000 70000, Tick 70100 70100] firedAt60000
   \<and> \<not> triggered (laps (toggleLapAlarm 0 firedAt60000) ! 0)
   \<and> \<not> triggered (laps (updateLapAlarmDuration 0 1000 firedAt60000) ! 0)"
proof -
  have h1: "0 < length (laps firedAt60000)" by (simp add: firedAt60000_eq)
  have h2: "triggered (laps firedAt60000 ! 0)" by (simp add: firedAt60000_eq)
  have tw: "takeWhile (\<lambda>a. \<not> endsCycle 0 a)
              [Tick 60100 60100, Pause, Start 70000 70000, Tick 70100 70100,
               ToggleArmed 0, ToggleArmed 0, Tick 70200 70200]
            = [Tick 60100 60100, Pause, Start 70000 70000, Tick 70100 70100]"
    by simp
  from fired_lap_silent_until_rearmed [OF h1 h2,
         of "[Tick 60100 60100, Pause, Start 70000 70000, Tick 70100 70100,
              ToggleArmed 0, ToggleArmed 0, Tick 70200 70200]" 1000]
  show ?thesis unfolding tw using h1 h2 by blast
qed

text \<open>After re-arming (two toggles), the next timer callback does play for lap 0.\<close>

lemma playedFor_after_rearming:
  "playedFor 0 [ToggleArmed 0, ToggleArmed 0, Tick 70200 70200] firedAt60000"
  by (simp add: firedAt60000_eq playsFor_def playCount_def stopwatch_defs)

section \<open>Closed laps\<close>

text \<open>
  C7, as stated, fails. After Start at 0 and Lap at 1000 the first lap is closed with
  \<open>recordedTime = 1000\<close>, and \<open>getLapElapsedTime\<close> for it returns 2000 at reading 2000
  and 3000 at reading 3000.
\<close>

theorem closed_lap_not_frozen_counterexample:
  "isRecorded (laps lapWhileRunning ! 0)
   \<and> recordedTime (laps lapWhileRunning ! 0) = 1000
   \<and> getLapElapsedTime 2000 lapWhileRunning 0 = 2000
   \<and> getLapElapsedTime 3000 lapWhileRunning 0 = 3000"
  by (simp add: lapWhileRunning_eq stopwatch_defs)

lemma closed_lap_createLap:
  assumes "i < length (laps s)" and "isRecorded (laps s ! i)"
  shows "i < length (laps (createLap t1 t2 t3 s))
       \<and> isRecorded (laps (createLap t1 t2 t3 s) ! i)
       \<and> recordedTime (laps (createLap t1 t2 t3 s) ! i) = recordedTime (laps s ! i)"
proof -
  from assms(1) have ne: "laps s \<noteq> []" by auto
  show ?thesis
  proof (cases "i = length (laps s) - 1")
    case True
    with assms ne show ?thesis
      by (simp add: createLap_def Let_def stopAlarmSound_def nth_append)
  next
    case False
    with assms ne show ?thesis
      by (simp add: createLap_def Let_def stopAlarmSound_def nth_append)
  qed
qed

lemma closed_lap_checkLapAlarms:
  assumes "i < length (laps s)" and "isRecorded (laps s ! i)"
  shows "isRecorded (laps (checkLapAlarms now s) ! i)
       \<and> recordedTime (laps (checkLapAlarms now s) ! i) = recordedTime (laps s ! i)"
proof -
  from assms(1) have ne: "laps s \<noteq> []" by auto
  with assms show ?thesis
    by (simp add: checkLapAlarms_def Let_def playAlarmSound_def nth_list_update)
qed

lemma closed_lap_step:
  assumes "i < length (laps s)" and "isRecorded (laps s ! i)" and "a \<noteq> Reset"
  shows "i < length (laps (step a s))
       \<and> isRecorded (laps (step a s) ! i)
       \<and> recordedTime (laps (step a s) ! i) = recordedTime (laps s ! i)"
proof (cases a)
  case (Start t1 t2)
  with assms show ?thesis by (auto simp add: startStopwatch_def Let_def)
next
  case Pause
  with assms show ?thesis by (simp add: pauseStopwatch_def)
next
  case (Lap t1 t2 t3)
  with closed_lap_createLap [OF assms(1,2)] show ?thesis by simp
next
  case Reset
  with assms show ?thesis by simp
next
  case (Tick t1 t2)
  from assms have "i < length (laps (updateStopwatchDisplay t1 s))"
    and "isRecorded (laps (updateStopwatchDisplay t1 s) ! i)" by simp_all
  from closed_lap_checkLapAlarms [OF this, of t2] Tick assms(1,2) show ?thesis
    by (simp add: tick_def)
next
  case (UpdateThreshold j d)
  with assms show ?thesis by (simp add: updateLapAlarmDuration_def nth_list_update)
next
  case (ToggleArmed j)
  with assms show ?thesis by (simp add: toggleLapAlarm_def nth_list_update)
qed

lemma closed_lap_run:
  assumes "i < length (laps s)" and "isRecorded (laps s ! i)" and "Reset \<notin> set as"
  shows "i < length (laps (run as s))
       \<and> isRecorded (laps (run as s) ! i)
       \<and> recordedTime (laps (run as s) ! i) = recordedTime (laps s ! i)"
  using assms
proof (induction as arbitrary: s)
  case Nil
  then show ?case by simp
next
  case (Cons a as)
  from Cons.prems have a: "a \<noteq> Reset" and as: "Reset \<notin> set as" by auto
  note st = closed_lap_step [OF Cons.prems(1,2) a]
  from st have "i < length (laps (step a s))" and "isRecorded (laps (step a s) ! i)"
    by simp_all
  from Cons.IH [OF this as] st show ?case by simp
qed

text \<open>
  C7, amended. For a closed lap the value frozen at closing time is the record's
  \<open>recordedTime\<close>: no later start, pause, timer callback, lap request, duration edit
  or alarm toggle changes it, and the lap stays closed. \<open>getLapElapsedTime\<close> of that lap
  does not depend on the clock reading only while the stopwatch is paused; while it
  runs the result is \<open>max 0 (now - createdAt)\<close>, which grows with the reading.
\<close>

theorem closed_lap_frozen_in_recordedTime:
  assumes "i < length (laps s)" and "isRecorded (laps s ! i)" and "Reset \<notin> set as"
  shows "i < length (laps (run as s))
       \<and> isRecorded (laps (run as s) ! i)
       \<and> recordedTime (laps (run as s) ! i) = recordedTime (laps s ! i)
       \<and> (\<not> isRunning s \<longrightarrow> getLapElapsedTime now s i = getLapElapsedTime now' s i)
       \<and> (isRunning s \<longrightarrow> getLapElapsedTime now s i = max 0 (now - createdAt (laps s ! i)))"
proof -
  have "\<not> isRunning s \<longrightarrow> getLapElapsedTime now s i = getLapElapsedTime now' s i"
    by (simp add: getLapElapsedTime_def mainElapsedTime_def)
  moreover from assms(1)
  have "isRunning s \<longrightarrow> getLapElapsedTime now s i = max 0 (now - createdAt (laps s ! i))"
    by (simp add: getLapElapsedTime_def mainElapsedTime_def)
  ultimately show ?thesis using closed_lap_run [OF assms] by blast
qed

theorem closed_lap_frozen_in_recordedTime_witness:
  "0 < length (laps lapWhileRunning) \<and> isRecorded (laps lapWhileRunning ! 0)
   \<and> Reset \<notin> set [Tick 2000 2000, Lap 3000 3000 3000, Pause]
   \<and> isRunning lapWhileRunning
   \<and> recordedTime (laps (run [Tick 2000 2000, Lap 3000 3000 3000, Pause] lapWhileRunning) ! 0) = 1000
   \<and> getLapElapsedTime 2500 lapWhileRunning 0 = 2500"
proof -
  have h1: "0 < length (laps lapWhileRunning)" by (simp add: lapWhileRunning_eq)
  have h2: "isRecorded (laps lapWhileRunning ! 0)" by (simp add: lapWhileRunning_eq)
  have h3: "Reset \<notin> set [Tick 2000 2000, Lap 3000 3000 3000, Pause]" by simp
  have r: "isRunning lapWhileRunning" by (simp add: lapWhileRunning_eq)
  have v: "recordedTime (laps lapWhileRunning ! 0) = 1000"
    and c: "createdAt (laps lapWhileRunning ! 0) = 0" by (simp_all add: lapWhileRunning_eq)
  from closed_lap_frozen_in_recordedTime [OF h1 h2 h3, of 2500 2500] h1 h2 h3 r v c
  show ?thesis by simp
qed

section \<open>One open lap, at the end of the ledger\<close>

lemma closedExceptLast_Nil: "closedExceptLast []"
  by (simp add: closedExceptLast_def)

lemma closedExceptLast_single: "closedExceptLast [newLap t d]"
  by (simp add: closedExceptLast_def newLap_def)

lemma closedExceptLast_close_append:
  assumes "closedExceptLast ls" and "ls \<noteq> []" and "isRecorded c"
  shows "closedExceptLast (ls[length ls - 1 := c] @ [newLap t d])"
  unfolding closedExceptLast_def
proof (intro allI impI)
  fix i
  assume i: "i < length (ls[length ls - 1 := c] @ [newLap t d])"
  from assms(2) have n: "0 < length ls" by simp
  consider "i = length ls" | "i = length ls - 1" | "i < length ls - 1"
    using i by fastforce
  then show "isRecorded ((ls[length ls - 1 := c] @ [newLap t d]) ! i)
             \<longleftrightarrow> Suc i < length (ls[length ls - 1 := c] @ [newLap t d])"
  proof cases
    case 1
    then show ?thesis by (simp add: nth_append newLap_def)
  next
    case 2
    with n assms(3) show ?thesis by (simp add: nth_append)
  next
    case 3
    with assms(1) show ?thesis by (auto simp add: nth_append closedExceptLast_def)
  qed
qed

lemma closedExceptLast_flags:
  assumes "closedExceptLast ls" and "isRecorded c = isRecorded (ls ! j)"
  shows "closedExceptLast (ls[j := c])"
  unfolding closedExceptLast_def
proof (intro allI impI)
  fix i
  assume "i < length (ls[j := c])"
  then have i: "i < length ls" by simp
  have "isRecorded (ls[j := c] ! i) = isRecorded (ls ! i)"
  proof (cases "i = j")
    case True
    with i assms(2) show ?thesis by simp
  next
    case False
    then show ?thesis by simp
  qed
  with assms(1) i show "isRecorded (ls[j := c] ! i) \<longleftrightarrow> Suc i < length (ls[j := c])"
    by (simp add: closedExceptLast_def)
qed

lemma closedExceptLast_startStopwatch:
  "closedExceptLast (laps s) \<Longrightarrow> closedExceptLast (laps (startStopwatch t1 t2 s))"
  by (simp add: startStopwatch_def Let_def closedExceptLast_single)

lemma closedExceptLast_createLap:
  assumes "closedExceptLast (laps s)"
  shows "closedExceptLast (laps (createLap t1 t2 t3 s))"
proof (cases "laps s = []")
  case True
  then show ?thesis
    by (simp add: createLap_def Let_def stopAlarmSound_def closedExceptLast_single
                  closedExceptLast_Nil)
next
  case False
  then show ?thesis
    using closedExceptLast_close_append [OF assms False]
    by (simp add: createLap_def Let_def stopAlarmSound_def)
qed

lemma closedExceptLast_checkLapAlarms:
  "closedExceptLast (laps s) \<Longrightarrow> closedExceptLast (laps (checkLapAlarms now s))"
  by (simp add: checkLapAlarms_def Let_def playAlarmSound_def closedExceptLast_flags
                closedExceptLast_Nil)

lemma closedExceptLast_step:
  assumes "closedExceptLast (laps s)"
  shows "closedExceptLast (laps (step a s))"
proof (cases a)
  case (Start t1 t2)
  with assms show ?thesis by (simp add: closedExceptLast_startStopwatch)
next
  case Pause
  with assms show ?thesis by (simp add: pauseStopwatch_def)
next
  case (Lap t1 t2 t3)
  with assms show ?thesis by (simp add: closedExceptLast_createLap)
next
  case Reset
  then show ?thesis by (simp add: resetStopwatch_def closedExceptLast_Nil)
next
  case (Tick t1 t2)
  with assms show ?thesis by (simp add: tick_def closedExceptLast_checkLapAlarms)
next
  case (UpdateThreshold i d)
  with assms show ?thesis
    by (simp add: updateLapAlarmDuration_def closedExceptLast_flags)
next
  case (ToggleArmed i)
  with assms show ?thesis
    by (simp add: toggleLapAlarm_def closedExceptLast_flags)
qed

lemma closedExceptLast_run:
  "closedExceptLast (laps s) \<Longrightarrow> closedExceptLast (laps (run as s))"
  by (induction as arbitrary: s) (simp_all add: closedExceptLast_step)

lemma closedExceptLast_filter:
  assumes "closedExceptLast ls"
  shows "length (filter (\<lambda>l. \<not> isRecorded l) ls) \<le> 1"
proof (cases ls rule: rev_cases)
  case Nil
  then show ?thesis by simp
next
  case (snoc xs x)
  have "\<forall>l \<in> set xs. isRecorded l"
  proof
    fix l assume "l \<in> set xs"
    then obtain i where i: "i < length xs" "xs ! i = l" by (auto simp add: in_set_conv_nth)
    with assms snoc show "isRecorded l"
      by (auto simp add: closedExceptLast_def nth_append dest!: spec [of _ i])
  qed
  then have "filter (\<lambda>l. \<not> isRecorded l) xs = []" by (simp add: filter_empty_conv)
  with snoc show ?thesis by simp
qed

text \<open>
  C6. After every sequence of actions from the initial state (start, pause, lap
  request, reset, and also timer callbacks, duration edits and alarm toggles) at most
  one record of the ledger is not recorded, and a record is not recorded exactly when it
  is the last element.
\<close>

theorem at_most_one_active_lap:
  "length (filter (\<lambda>l. \<not> isRecorded l) (laps (run as init_state))) \<le> 1
   \<and> (\<forall>i < length (laps (run as init_state)).
         \<not> isRecorded (laps (run as init_state) ! i)
         \<longleftrightarrow> Suc i = length (laps (run as init_state)))"
proof -
  have "closedExceptLast (laps init_state)"
    by (simp add: init_state_def closedExceptLast_Nil)
  then have inv: "closedExceptLast (laps (run as init_state))" by (rule closedExceptLast_run)
  from inv have "length (filter (\<lambda>l. \<not> isRecorded l) (laps (run as init_state))) \<le> 1"
    by (rule closedExceptLast_filter)
  moreover from inv have "\<forall>i < length (laps (run as init_state)).
         \<not> isRecorded (laps (run as init_state) ! i)
         \<longleftrightarrow> Suc i = length (laps (run as init_state))"
    by (auto simp add: closedExceptLast_def)
  ultimately show ?thesis by blast
qed

theorem at_most_one_active_lap_witness:
  "length (filter (\<lambda>l. \<not> isRecorded l) (laps lapWhilePaused)) \<le> 1
   \<and> 1 < length (laps lapWhilePaused)
   \<and> Suc 1 = length (laps lapWhilePaused)
   \<and> \<not> isRecorded (laps lapWhilePaused ! 1)
   \<and> isRecorded (laps lapWhilePaused ! 0)"
proof -
  note t = at_most_one_active_lap
             [of "[Start 0 0, Tick 1000 1000, Pause, Lap 2000 2000 2000]",
              folded lapWhilePaused_def]
  have l1: "1 < length (laps lapWhilePaused)" and l0: "0 < length (laps lapWhilePaused)"
    and e1: "Suc 1 = length (laps lapWhilePaused)"
    and e0: "Suc 0 \<noteq> length (laps lapWhilePaused)"
    by (simp_all add: lapWhilePaused_eq)
  from t have c: "length (filter (\<lambda>l. \<not> isRecorded l) (laps lapWhilePaused)) \<le> 1"
    by (rule conjunct1)
  from t have q: "\<forall>i < length (laps lapWhilePaused).
         \<not> isRecorded (laps lapWhilePaused ! i) \<longleftrightarrow> Suc i = length (laps lapWhilePaused)"
    by (rule conjunct2)
  from q l1 e1 have "\<not> isRecorded (laps lapWhilePaused ! 1)" by blast
  moreover from q l0 e0 have "isRecorded (laps lapWhilePaused ! 0)" by blast
  ultimately show ?thesis using c l1 e1 by blast
qed

end
